theory Spec2Isabelle
  imports Complex_Main "HOL-Library.AList" "HOL-Library.Monad_Syntax"
begin

section \<open>Values, errors and responses\<close>

text \<open>
  The movie catalogue of \<^verbatim>\<open>src/routes/movies.py\<close> and \<^verbatim>\<open>src/schemas/movies.py\<close>.
  Python values that travel through \<^verbatim>\<open>film.dict()\<close>, \<^verbatim>\<open>setattr\<close> and the ORM
  attributes are dynamically typed, so they are one datatype. A \<^verbatim>\<open>datetime.date\<close> is
  its day number, a \<^verbatim>\<open>float\<close> and a \<^verbatim>\<open>Decimal\<close> are the rational they denote
  (rounding and NaN are outside the model), a \<^verbatim>\<open>str\<close> is the list of its characters.
\<close>

datatype MovieStatusEnum = RELEASED | POST_PRODUCTION | IN_PRODUCTION

fun status_value :: "MovieStatusEnum \<Rightarrow> string" where
  "status_value RELEASED = ''Released''"
| "status_value POST_PRODUCTION = ''Post Production''"
| "status_value IN_PRODUCTION = ''In Production''"

definition MovieStatusEnum_of :: "string \<Rightarrow> MovieStatusEnum option" where
  "MovieStatusEnum_of s =
     (if s = ''Released'' then Some RELEASED
      else if s = ''Post Production'' then Some POST_PRODUCTION
      else if s = ''In Production'' then Some IN_PRODUCTION
      else None)"

datatype pyval =
    PNone
  | PInt int
  | PFloat rat
  | PStr string
  | PDate int
  | PDecimal rat
  | PEnum MovieStatusEnum
  | PList "pyval list"
  | PObj "(string \<times> pyval) list"

type_synonym attrs = "(string \<times> pyval) list"

text \<open>
  One entry of a validation error, by its kind: the field is absent; its value does not
  convert to the declared type; it breaks a constraint of the declared type (the
  enumeration, the digits of the decimal, the bounds of a query parameter); or a
  validator of the schema raised \<^verbatim>\<open>ValueError\<close> with this text.
\<close>

datatype error_type = missing | invalid_type | constraint | value_error string

text \<open>
  Every exception the handlers can end with. \<^verbatim>\<open>HTTPException\<close> is raised by the
  handlers themselves; \<^verbatim>\<open>RequestValidationError\<close> by the framework when the body or the
  query does not fit the declared schema; the others are raised by the libraries below
  the handlers and nothing in the source catches them.
\<close>

datatype error =
    HTTPException nat string
  | RequestValidationError "(string \<times> error_type) list"
  | ResponseValidationError
  | ValidationError
  | TypeError
  | AttributeError
  | IntegrityError
  | MultipleResultsFound

text \<open>The status the client sees: an exception nothing handles is a 500.\<close>

fun status_code :: "error \<Rightarrow> nat" where
  "status_code (HTTPException c d) = c"
| "status_code (RequestValidationError errs) = 422"
| "status_code ResponseValidationError = 500"
| "status_code ValidationError = 500"
| "status_code TypeError = 500"
| "status_code AttributeError = 500"
| "status_code IntegrityError = 500"
| "status_code MultipleResultsFound = 500"

section \<open>Schemas\<close>

record MovieListItemSchema =
  item_id :: int
  item_name :: string
  item_date :: int
  item_score :: rat
  item_overview :: string

record MovieListResponseSchema =
  resp_movies :: "MovieListItemSchema list"
  total_pages :: int
  total_items :: int
  next_page :: "int option"
  prev_page :: "int option"

record CountrySchema =
  country_schema_id :: int
  country_schema_name :: "string option"

text \<open>\<^verbatim>\<open>GenreSchema\<close>, \<^verbatim>\<open>ActorSchema\<close> and \<^verbatim>\<open>LanguageSchema\<close> have the same two fields.\<close>

record NamedSchema =
  named_id :: int
  named_name :: string

type_synonym GenreSchema = NamedSchema
type_synonym ActorSchema = NamedSchema
type_synonym LanguageSchema = NamedSchema

record MovieDetailSchema =
  detail_id :: int
  detail_name :: string
  detail_date :: int
  detail_score :: rat
  detail_overview :: string
  detail_status :: MovieStatusEnum
  detail_budget :: rat
  detail_revenue :: rat
  detail_country :: CountrySchema
  detail_genres :: "GenreSchema list"
  detail_actors :: "ActorSchema list"
  detail_languages :: "LanguageSchema list"

record MovieCreateUpdateSchema =
  name :: string
  date :: int
  score :: rat
  overview :: string
  status :: MovieStatusEnum
  budget :: rat
  revenue :: rat
  country_id :: "int option"
  country :: "string option"
  genre_ids :: "string list option"
  actor_ids :: "string list option"
  languages :: "string list option"
  fields_set :: "string list"

datatype content =
    Detail MovieDetailSchema
  | Listing MovieListResponseSchema
  | NoContent

type_synonym response = "nat \<times> content"

subsection \<open>The request body\<close>

text \<open>
  One field of a JSON body as the schema meets it: the key is absent, or its value does
  not convert to the field's declared type, or it does and this is the converted value.
\<close>

datatype 'a given = Missing | Invalid | Given 'a

record request_body =
  in_name :: "string given"
  in_date :: "int given"
  in_score :: "rat given"
  in_overview :: "string given"
  in_status :: "string given"
  in_budget :: "rat given"
  in_revenue :: "rat given"
  in_country_id :: "int option given"
  in_country :: "string option given"
  in_genre_ids :: "string list option given"
  in_actor_ids :: "string list option given"
  in_languages :: "string list option given"
  in_extra :: "string list"

subsection \<open>The validators of \<^verbatim>\<open>MovieCreateUpdateSchema\<close>\<close>

definition name_max_length :: "string \<Rightarrow> string + string" where
  "name_max_length v =
     (if length v > 255 then Inl ''Name must not exceed 255 characters.'' else Inr v)"

definition date_within_one_year :: "int \<Rightarrow> int \<Rightarrow> string + int" where
  "date_within_one_year today v =
     (if v > today + 365 then Inl ''Date must not be more than one year in the future.''
      else Inr v)"

definition score_between_0_and_100 :: "rat \<Rightarrow> string + rat" where
  "score_between_0_and_100 v =
     (if \<not> (0 \<le> v \<and> v \<le> 100) then Inl ''Score must be between 0 and 100.'' else Inr v)"

definition non_negative_budget :: "rat \<Rightarrow> string + rat" where
  "non_negative_budget v = (if v < 0 then Inl ''Budget must be non-negative.'' else Inr v)"

definition non_negative_revenue :: "rat \<Rightarrow> string + rat" where
  "non_negative_revenue v = (if v < 0 then Inl ''Revenue must be non-negative.'' else Inr v)"

text \<open>
  \<^verbatim>\<open>condecimal(max_digits=15, decimal_places=2)\<close>: at most two decimal places and at
  most thirteen digits before the point.
\<close>

definition condecimal :: "nat \<Rightarrow> nat \<Rightarrow> rat \<Rightarrow> bool" where
  "condecimal max_digits decimal_places v =
     (snd (quotient_of (v * 10 ^ decimal_places)) = 1
      \<and> \<bar>v\<bar> < 10 ^ (max_digits - decimal_places))"

text \<open>A validator of the schema runs on the converted value; its \<^verbatim>\<open>ValueError\<close> is the entry.\<close>

definition field_validator :: "('a \<Rightarrow> string + 'b) \<Rightarrow> 'a \<Rightarrow> error_type + 'b" where
  "field_validator f v = (case f v of Inl msg \<Rightarrow> Inl (value_error msg) | Inr w \<Rightarrow> Inr w)"

definition budget_field :: "rat \<Rightarrow> error_type + rat" where
  "budget_field v =
     (if condecimal 15 2 v then field_validator non_negative_budget v else Inl constraint)"

definition status_field :: "string \<Rightarrow> error_type + MovieStatusEnum" where
  "status_field s =
     (case MovieStatusEnum_of s of None \<Rightarrow> Inl constraint | Some e \<Rightarrow> Inr e)"

text \<open>
  A field without a default is required; one with a default takes it when the key is
  absent. An entry of the error carries the field's name and its kind.
\<close>

definition required ::
  "string \<Rightarrow> 'a given \<Rightarrow> ('a \<Rightarrow> error_type + 'b) \<Rightarrow> (string \<times> error_type) + 'b" where
  "required loc g validator =
     (case g of
        Missing \<Rightarrow> Inl (loc, missing)
      | Invalid \<Rightarrow> Inl (loc, invalid_type)
      | Given v \<Rightarrow> (case validator v of Inl e \<Rightarrow> Inl (loc, e) | Inr w \<Rightarrow> Inr w))"

definition optional :: "string \<Rightarrow> 'a given \<Rightarrow> 'a \<Rightarrow> (string \<times> error_type) + 'a" where
  "optional loc g dflt =
     (case g of
        Missing \<Rightarrow> Inr dflt
      | Invalid \<Rightarrow> Inl (loc, invalid_type)
      | Given v \<Rightarrow> Inr v)"

definition errs_of :: "'e + 'a \<Rightarrow> 'e list" where
  "errs_of r = (case r of Inl e \<Rightarrow> [e] | Inr v \<Rightarrow> [])"

definition supplied :: "string \<Rightarrow> 'a given \<Rightarrow> string list" where
  "supplied loc g = (case g of Missing \<Rightarrow> [] | Invalid \<Rightarrow> [loc] | Given v \<Rightarrow> [loc])"

definition fields_set_of :: "request_body \<Rightarrow> string list" where
  "fields_set_of b =
     supplied ''name'' (in_name b) @ supplied ''date'' (in_date b)
     @ supplied ''score'' (in_score b) @ supplied ''overview'' (in_overview b)
     @ supplied ''status'' (in_status b) @ supplied ''budget'' (in_budget b)
     @ supplied ''revenue'' (in_revenue b) @ supplied ''country_id'' (in_country_id b)
     @ supplied ''country'' (in_country b) @ supplied ''genre_ids'' (in_genre_ids b)
     @ supplied ''actor_ids'' (in_actor_ids b) @ supplied ''languages'' (in_languages b)"

definition validation_errors :: "int \<Rightarrow> request_body \<Rightarrow> (string \<times> error_type) list" where
  "validation_errors today b =
     errs_of (required ''name'' (in_name b) (field_validator name_max_length))
     @ errs_of (required ''date'' (in_date b) (field_validator (date_within_one_year today)))
     @ errs_of (required ''score'' (in_score b) (field_validator score_between_0_and_100))
     @ errs_of (required ''overview'' (in_overview b) Inr)
     @ errs_of (required ''status'' (in_status b) status_field)
     @ errs_of (required ''budget'' (in_budget b) budget_field)
     @ errs_of (required ''revenue'' (in_revenue b) (field_validator non_negative_revenue))
     @ errs_of (required ''country_id'' (in_country_id b) Inr)
     @ errs_of (optional ''country'' (in_country b) None)
     @ errs_of (optional ''genre_ids'' (in_genre_ids b) (Some []))
     @ errs_of (optional ''actor_ids'' (in_actor_ids b) (Some []))
     @ errs_of (optional ''languages'' (in_languages b) (Some []))"

text \<open>
  Validation of a body against \<^verbatim>\<open>MovieCreateUpdateSchema\<close>: all field errors are
  collected; with none, the model is built and remembers which fields the body set.
\<close>

definition MovieCreateUpdateSchema_validate ::
  "int \<Rightarrow> request_body \<Rightarrow> error + MovieCreateUpdateSchema" where
  "MovieCreateUpdateSchema_validate today b =
     (if validation_errors today b \<noteq> [] then Inl (RequestValidationError (validation_errors today b))
      else Inr \<lparr>
        name = projr (required ''name'' (in_name b) (field_validator name_max_length)),
        date = projr (required ''date'' (in_date b) (field_validator (date_within_one_year today))),
        score = projr (required ''score'' (in_score b) (field_validator score_between_0_and_100)),
        overview = projr (required ''overview'' (in_overview b) Inr),
        status = projr (required ''status'' (in_status b) status_field),
        budget = projr (required ''budget'' (in_budget b) budget_field),
        revenue = projr (required ''revenue'' (in_revenue b) (field_validator non_negative_revenue)),
        country_id = projr (required ''country_id'' (in_country_id b) Inr),
        country = projr (optional ''country'' (in_country b) None),
        genre_ids = projr (optional ''genre_ids'' (in_genre_ids b) (Some [])),
        actor_ids = projr (optional ''actor_ids'' (in_actor_ids b) (Some [])),
        languages = projr (optional ''languages'' (in_languages b) (Some [])),
        fields_set = fields_set_of b \<rparr>)"

subsection \<open>\<^verbatim>\<open>film.dict()\<close> and \<^verbatim>\<open>film.dict(exclude_unset=True)\<close>\<close>

fun opt_val :: "('a \<Rightarrow> pyval) \<Rightarrow> 'a option \<Rightarrow> pyval" where
  "opt_val f None = PNone"
| "opt_val f (Some x) = f x"

definition str_list :: "string list \<Rightarrow> pyval" where
  "str_list xs = PList (map PStr xs)"

definition dict :: "MovieCreateUpdateSchema \<Rightarrow> attrs" where
  "dict film =
     [(''name'', PStr (name film)),
      (''date'', PDate (date film)),
      (''score'', PFloat (score film)),
      (''overview'', PStr (overview film)),
      (''status'', PEnum (status film)),
      (''budget'', PDecimal (budget film)),
      (''revenue'', PFloat (revenue film)),
      (''country_id'', opt_val PInt (country_id film)),
      (''country'', opt_val PStr (country film)),
      (''genre_ids'', opt_val str_list (genre_ids film)),
      (''actor_ids'', opt_val str_list (actor_ids film)),
      (''languages'', opt_val str_list (languages film))]"

definition dict_exclude_unset :: "MovieCreateUpdateSchema \<Rightarrow> attrs" where
  "dict_exclude_unset film = filter (\<lambda>kv. fst kv \<in> set (fields_set film)) (dict film)"

section \<open>Storage\<close>

text \<open>
  Modelled from the spec: the relational store behind \<^verbatim>\<open>AsyncSession\<close> (the module
  \<^verbatim>\<open>database\<close> is not among the sources). A movie row is its generated identifier and
  its column values; a movie refers to at most one country through \<^verbatim>\<open>country_id\<close> and
  to genres, actors and languages through link tables; no two rows may share an
  identifier or a (name, date) pair. Which identifier the store generates for a new row
  is its own choice: the spec says that it is new and no more, so it is a parameter
  \<open>new_id\<close> of the create.
\<close>

record database =
  tbl_movies :: "(int \<times> attrs) list"
  tbl_countries :: "(int \<times> string option) list"
  tbl_genres :: "(int \<times> string) list"
  tbl_actors :: "(int \<times> string) list"
  tbl_languages :: "(int \<times> string) list"
  movies_genres :: "(int \<times> int) list"
  movies_actors :: "(int \<times> int) list"
  movies_languages :: "(int \<times> int) list"

text \<open>
  A \<^verbatim>\<open>MovieModel\<close> instance: its identifier (\<^verbatim>\<open>None\<close> until the row is inserted), its
  column attributes by name, the four relationship attributes the source loads with
  \<^verbatim>\<open>selectinload\<close>, and whether the country was assigned since the instance was made
  or loaded. The class declaration is not among the sources, so the keys of
  \<^verbatim>\<open>MovieModel.__table__.columns\<close> are a parameter \<open>cols\<close> of everything that depends
  on them.
\<close>

record MovieModel =
  m_id :: "int option"
  m_columns :: attrs
  m_country :: pyval
  m_country_assigned :: bool
  m_genres :: pyval
  m_actors :: pyval
  m_languages :: pyval

definition relationships :: "string list" where
  "relationships = [''country'', ''genres'', ''actors'', ''languages'']"

definition hasattr_MovieModel :: "string list \<Rightarrow> string \<Rightarrow> bool" where
  "hasattr_MovieModel cols k = (k \<in> set cols \<or> k \<in> set relationships)"

definition getattr :: "MovieModel \<Rightarrow> string \<Rightarrow> pyval option" where
  "getattr m k =
     (if k = ''id'' then Some (opt_val PInt (m_id m))
      else if k = ''country'' then Some (m_country m)
      else if k = ''genres'' then Some (m_genres m)
      else if k = ''actors'' then Some (m_actors m)
      else if k = ''languages'' then Some (m_languages m)
      else map_of (m_columns m) k)"

fun is_obj :: "pyval \<Rightarrow> bool" where
  "is_obj (PObj a) = True"
| "is_obj v = False"

text \<open>
  \<^verbatim>\<open>setattr(instance, key, value)\<close>. A relationship attribute takes only mapped
  instances (or \<^verbatim>\<open>None\<close> for the scalar one): the ORM raises on anything else. Any
  other key is stored as given.
\<close>

definition setattr :: "MovieModel \<Rightarrow> string \<Rightarrow> pyval \<Rightarrow> error + MovieModel" where
  "setattr m k v =
     (if k = ''country'' then
        (if v = PNone \<or> is_obj v then Inr (m\<lparr>m_country := v, m_country_assigned := True\<rparr>)
         else Inl AttributeError)
      else if k \<in> set [''genres'', ''actors'', ''languages''] then
        (case v of
           PList xs \<Rightarrow>
             (if list_all is_obj xs then
                Inr (if k = ''genres'' then m\<lparr>m_genres := v\<rparr>
                     else if k = ''actors'' then m\<lparr>m_actors := v\<rparr>
                     else m\<lparr>m_languages := v\<rparr>)
              else Inl AttributeError)
         | _ \<Rightarrow> Inl TypeError)
      else Inr (m\<lparr>m_columns := AList.update k v (m_columns m)\<rparr>))"

text \<open>
  \<^verbatim>\<open>MovieModel(**kwargs)\<close>: the declarative constructor refuses a key that is not an
  attribute of the class (its columns and its relationships) and sets the others in
  order.
\<close>

fun init_loop :: "string list \<Rightarrow> MovieModel \<Rightarrow> attrs \<Rightarrow> error + MovieModel" where
  "init_loop cols m [] = Inr m"
| "init_loop cols m (kv # kwargs) =
     (if \<not> hasattr_MovieModel cols (fst kv) then Inl TypeError
      else (case setattr m (fst kv) (snd kv) of
              Inl e \<Rightarrow> Inl e
            | Inr m' \<Rightarrow> init_loop cols m' kwargs))"

definition MovieModel_init :: "string list \<Rightarrow> attrs \<Rightarrow> error + MovieModel" where
  "MovieModel_init cols kwargs =
     init_loop cols
       \<lparr>m_id = None, m_columns = [], m_country = PNone, m_country_assigned = False,
        m_genres = PList [], m_actors = PList [], m_languages = PList []\<rparr> kwargs"

subsection \<open>Loading\<close>

definition country_of :: "database \<Rightarrow> attrs \<Rightarrow> pyval" where
  "country_of db row =
     (case map_of row ''country_id'' of
        Some (PInt c) \<Rightarrow>
          (case map_of (tbl_countries db) c of
             Some n \<Rightarrow> PObj [(''id'', PInt c), (''name'', opt_val PStr n)]
           | None \<Rightarrow> PNone)
      | _ \<Rightarrow> PNone)"

definition related :: "(int \<times> string) list \<Rightarrow> (int \<times> int) list \<Rightarrow> int \<Rightarrow> pyval" where
  "related tbl links film_id =
     PList (map (\<lambda>r. PObj [(''id'', PInt (fst r)), (''name'', PStr (snd r))])
              (filter (\<lambda>r. (film_id, fst r) \<in> set links) tbl))"

definition load :: "database \<Rightarrow> int \<times> attrs \<Rightarrow> MovieModel" where
  "load db row =
     \<lparr>m_id = Some (fst row), m_columns = snd row,
      m_country = country_of db (snd row), m_country_assigned = False,
      m_genres = related (tbl_genres db) (movies_genres db) (fst row),
      m_actors = related (tbl_actors db) (movies_actors db) (fst row),
      m_languages = related (tbl_languages db) (movies_languages db) (fst row)\<rparr>"

definition scalar_one_or_none :: "'a list \<Rightarrow> error + 'a option" where
  "scalar_one_or_none rows =
     (case rows of
        [] \<Rightarrow> Inr None
      | [r] \<Rightarrow> Inr (Some r)
      | r # r' # rest \<Rightarrow> Inl MultipleResultsFound)"

subsection \<open>Commit\<close>

definition same_name_date :: "attrs \<Rightarrow> attrs \<Rightarrow> bool" where
  "same_name_date r r' =
     (map_of r ''name'' = map_of r' ''name'' \<and> map_of r ''date'' = map_of r' ''date'')"

text \<open>
  What a flush writes for an instance: its column values, with the reference to the
  country set from the country that was assigned, if one was (\<^verbatim>\<open>None\<close> clears it).
\<close>

definition country_key :: "pyval \<Rightarrow> pyval" where
  "country_key c =
     (case c of
        PObj a \<Rightarrow> (case map_of a ''id'' of Some i \<Rightarrow> i | None \<Rightarrow> PNone)
      | _ \<Rightarrow> PNone)"

definition flush_columns :: "MovieModel \<Rightarrow> attrs" where
  "flush_columns m =
     (if m_country_assigned m
      then AList.update ''country_id'' (country_key (m_country m)) (m_columns m)
      else m_columns m)"

text \<open>
  Committing a new instance inserts its row under the identifier the store generates;
  the store refuses the row when its identifier or its (name, date) pair is already held.
\<close>

definition commit_insert ::
  "database \<Rightarrow> int \<Rightarrow> MovieModel \<Rightarrow> error + (database \<times> (int \<times> attrs))" where
  "commit_insert db new_id new_film =
     (if list_ex (\<lambda>r. fst r = new_id \<or> same_name_date (snd r) (flush_columns new_film))
           (tbl_movies db)
      then Inl IntegrityError
      else Inr (db\<lparr>tbl_movies := tbl_movies db @ [(new_id, flush_columns new_film)]\<rparr>,
                (new_id, flush_columns new_film)))"

text \<open>Committing a changed instance writes its row.\<close>

definition commit_update :: "database \<Rightarrow> int \<Rightarrow> MovieModel \<Rightarrow> error + database" where
  "commit_update db film_id db_film =
     (if list_ex (\<lambda>r. fst r \<noteq> film_id \<and> same_name_date (snd r) (flush_columns db_film))
           (tbl_movies db)
      then Inl IntegrityError
      else Inr (db\<lparr>tbl_movies :=
                    map (\<lambda>r. if fst r = film_id then (film_id, flush_columns db_film) else r)
                      (tbl_movies db)\<rparr>))"


section \<open>Response schemas read from attributes\<close>

fun as_int :: "pyval option \<Rightarrow> int option" where
  "as_int (Some (PInt i)) = Some i"
| "as_int v = None"

fun as_str :: "pyval option \<Rightarrow> string option" where
  "as_str (Some (PStr s)) = Some s"
| "as_str v = None"

fun as_opt_str :: "pyval option \<Rightarrow> string option option" where
  "as_opt_str (Some (PStr s)) = Some (Some s)"
| "as_opt_str (Some PNone) = Some None"
| "as_opt_str v = None"

fun as_date :: "pyval option \<Rightarrow> int option" where
  "as_date (Some (PDate d)) = Some d"
| "as_date v = None"

fun as_float :: "pyval option \<Rightarrow> rat option" where
  "as_float (Some (PFloat x)) = Some x"
| "as_float (Some (PInt i)) = Some (of_int i)"
| "as_float v = None"

fun as_decimal :: "pyval option \<Rightarrow> rat option" where
  "as_decimal (Some (PDecimal x)) = (if condecimal 15 2 x then Some x else None)"
| "as_decimal v = None"

fun as_status :: "pyval option \<Rightarrow> MovieStatusEnum option" where
  "as_status (Some (PEnum e)) = Some e"
| "as_status (Some (PStr s)) = MovieStatusEnum_of s"
| "as_status v = None"

definition CountrySchema_validate :: "pyval \<Rightarrow> CountrySchema option" where
  "CountrySchema_validate v =
     (case v of
        PObj a \<Rightarrow>
          do { i \<leftarrow> as_int (map_of a ''id'');
               n \<leftarrow> as_opt_str (map_of a ''name'');
               Some \<lparr>country_schema_id = i, country_schema_name = n\<rparr> }
      | _ \<Rightarrow> None)"

definition NamedSchema_validate :: "pyval \<Rightarrow> NamedSchema option" where
  "NamedSchema_validate v =
     (case v of
        PObj a \<Rightarrow>
          do { i \<leftarrow> as_int (map_of a ''id'');
               n \<leftarrow> as_str (map_of a ''name'');
               Some \<lparr>named_id = i, named_name = n\<rparr> }
      | _ \<Rightarrow> None)"

definition NamedSchema_list :: "pyval option \<Rightarrow> NamedSchema list option" where
  "NamedSchema_list v =
     (case v of
        Some (PList xs) \<Rightarrow> those (map NamedSchema_validate xs)
      | _ \<Rightarrow> None)"

definition MovieListItemSchema_validate :: "MovieModel \<Rightarrow> MovieListItemSchema option" where
  "MovieListItemSchema_validate m =
     do { i \<leftarrow> as_int (getattr m ''id'');
          n \<leftarrow> as_str (getattr m ''name'');
          d \<leftarrow> as_date (getattr m ''date'');
          s \<leftarrow> as_float (getattr m ''score'');
          ov \<leftarrow> as_str (getattr m ''overview'');
          Some \<lparr>item_id = i, item_name = n, item_date = d, item_score = s,
                item_overview = ov\<rparr> }"

text \<open>
  \<^verbatim>\<open>MovieDetailSchema\<close> declares \<^verbatim>\<open>country: CountrySchema\<close>: the attribute must be a
  country, \<^verbatim>\<open>None\<close> does not validate.
\<close>

definition MovieDetailSchema_validate :: "MovieModel \<Rightarrow> MovieDetailSchema option" where
  "MovieDetailSchema_validate m =
     do { i \<leftarrow> as_int (getattr m ''id'');
          n \<leftarrow> as_str (getattr m ''name'');
          d \<leftarrow> as_date (getattr m ''date'');
          s \<leftarrow> as_float (getattr m ''score'');
          ov \<leftarrow> as_str (getattr m ''overview'');
          st \<leftarrow> as_status (getattr m ''status'');
          bu \<leftarrow> as_decimal (getattr m ''budget'');
          re \<leftarrow> as_float (getattr m ''revenue'');
          c \<leftarrow> Option.bind (getattr m ''country'') CountrySchema_validate;
          gs \<leftarrow> NamedSchema_list (getattr m ''genres'');
          acs \<leftarrow> NamedSchema_list (getattr m ''actors'');
          ls \<leftarrow> NamedSchema_list (getattr m ''languages'');
          Some \<lparr>detail_id = i, detail_name = n, detail_date = d, detail_score = s,
                detail_overview = ov, detail_status = st, detail_budget = bu,
                detail_revenue = re, detail_country = c, detail_genres = gs,
                detail_actors = acs, detail_languages = ls\<rparr> }"

text \<open>The framework validates what a handler returns against its \<^verbatim>\<open>response_model\<close>.\<close>

definition respond_detail :: "nat \<Rightarrow> MovieModel \<Rightarrow> error + response" where
  "respond_detail code film =
     (case MovieDetailSchema_validate film of
        None \<Rightarrow> Inl ResponseValidationError
      | Some v \<Rightarrow> Inr (code, Detail v))"

section \<open>The handlers of \<^verbatim>\<open>routes/movies.py\<close>\<close>

record PaginationParams =
  page :: int
  per_page :: int

definition PaginationParams_validate :: "int given \<Rightarrow> int given \<Rightarrow> error + PaginationParams" where
  "PaginationParams_validate pg pp =
     (let errs =
        (case pg of
           Missing \<Rightarrow> []
         | Invalid \<Rightarrow> [(''page'', invalid_type)]
         | Given v \<Rightarrow> if v \<ge> 1 then [] else [(''page'', constraint)])
        @ (case pp of
             Missing \<Rightarrow> []
           | Invalid \<Rightarrow> [(''per_page'', invalid_type)]
           | Given v \<Rightarrow>
               if v < 1 then [(''per_page'', constraint)]
               else if v > 20 then [(''per_page'', constraint)]
               else [])
      in if errs \<noteq> [] then Inl (RequestValidationError errs)
         else Inr \<lparr>page = (case pg of Given v \<Rightarrow> v | _ \<Rightarrow> 1),
                   per_page = (case pp of Given v \<Rightarrow> v | _ \<Rightarrow> 10)\<rparr>)"

definition get_film_or_404 :: "database \<Rightarrow> int \<Rightarrow> error + MovieModel" where
  "get_film_or_404 db film_id =
     (case scalar_one_or_none (filter (\<lambda>r. fst r = film_id) (tbl_movies db)) of
        Inl e \<Rightarrow> Inl e
      | Inr None \<Rightarrow> Inl (HTTPException 404 ''Movie with the given ID was not found.'')
      | Inr (Some row) \<Rightarrow> Inr (load db row))"

text \<open>The rows of one page: ordered by identifier, highest first, then offset and limit.\<close>

definition select_page :: "database \<Rightarrow> int \<Rightarrow> int \<Rightarrow> (int \<times> attrs) list" where
  "select_page db offset limit =
     take (nat limit) (drop (nat offset) (sort_key (\<lambda>r. - fst r) (tbl_movies db)))"

text \<open>
  \<^verbatim>\<open>get_movies\<close> is called with validated parameters only, so \<open>per_page\<close> is at least 1
  where it divides. The summary view reads no relationship of the films.
\<close>

definition get_movies :: "PaginationParams \<Rightarrow> database \<Rightarrow> error + MovieListResponseSchema" where
  "get_movies params db =
     (let offset = (page params - 1) * per_page params;
          films = map (load db) (select_page db offset (per_page params))
      in if films = [] then Inl (HTTPException 404 ''No movies found.'')
         else
           (let total = int (length (tbl_movies db));
                total_pages = \<lceil>(of_int total :: rat) / of_int (per_page params)\<rceil>;
                next_page = (if page params \<ge> total_pages then None else Some (page params + 1));
                prev_page = (if page params > 1 then Some (page params - 1) else None)
            in case those (map MovieListItemSchema_validate films) of
                 None \<Rightarrow> Inl ValidationError
               | Some items \<Rightarrow>
                   Inr \<lparr>resp_movies = items, total_pages = total_pages, total_items = total,
                        next_page = next_page, prev_page = prev_page\<rparr>))"

definition get_movie :: "int \<Rightarrow> database \<Rightarrow> error + MovieModel" where
  "get_movie movie_id db = get_film_or_404 db movie_id"

text \<open>
  \<^verbatim>\<open>add_film\<close> awaits the storage twice: the duplicate query, then the commit. Requests
  of other clients can commit in between, so the two steps take the state each of them
  sees; \<open>add_film\<close> is the handler running undisturbed.
\<close>

definition add_film_at ::
  "string list \<Rightarrow> int \<Rightarrow> MovieCreateUpdateSchema \<Rightarrow> database \<Rightarrow> database
     \<Rightarrow> (error + MovieModel) \<times> database" where
  "add_film_at cols new_id film db_query db_commit =
     (case scalar_one_or_none
             (filter (\<lambda>r. map_of (snd r) ''name'' = Some (PStr (name film))
                          \<and> map_of (snd r) ''date'' = Some (PDate (date film)))
                (tbl_movies db_query)) of
        Inl e \<Rightarrow> (Inl e, db_commit)
      | Inr (Some existing_movie) \<Rightarrow>
          (Inl (HTTPException 409 ''Movie with the same name and date already exists.''),
           db_commit)
      | Inr None \<Rightarrow>
          (case MovieModel_init cols (dict film) of
             Inl e \<Rightarrow> (Inl e, db_commit)
           | Inr new_film \<Rightarrow>
               (case commit_insert db_commit new_id new_film of
                  Inl e \<Rightarrow> (Inl e, db_commit)
                | Inr (db', row) \<Rightarrow> (Inr (load db' row), db'))))"

definition add_film ::
  "string list \<Rightarrow> int \<Rightarrow> MovieCreateUpdateSchema \<Rightarrow> database \<Rightarrow> (error + MovieModel) \<times> database" where
  "add_film cols new_id film db = add_film_at cols new_id film db db"

text \<open>The loop of \<^verbatim>\<open>edit_film\<close> over \<^verbatim>\<open>film_data.items()\<close>.\<close>

fun setattr_loop :: "string list \<Rightarrow> MovieModel \<Rightarrow> attrs \<Rightarrow> error + MovieModel" where
  "setattr_loop cols db_film [] = Inr db_film"
| "setattr_loop cols db_film (kv # film_data) =
     (if fst kv \<in> set cols then
        (case setattr db_film (fst kv) (snd kv) of
           Inl e \<Rightarrow> Inl e
         | Inr db_film' \<Rightarrow> setattr_loop cols db_film' film_data)
      else setattr_loop cols db_film film_data)"

definition edit_film ::
  "string list \<Rightarrow> int \<Rightarrow> MovieCreateUpdateSchema \<Rightarrow> database \<Rightarrow> (error + MovieModel) \<times> database" where
  "edit_film cols film_id film db =
     (case get_film_or_404 db film_id of
        Inl e \<Rightarrow> (Inl e, db)
      | Inr db_film \<Rightarrow>
          (case setattr_loop cols db_film (dict_exclude_unset film) of
             Inl e \<Rightarrow> (Inl e, db)
           | Inr db_film' \<Rightarrow>
               (case commit_update db film_id db_film' of
                  Inl e \<Rightarrow> (Inl e, db)
                | Inr db' \<Rightarrow> (Inr (load db' (film_id, flush_columns db_film')), db'))))"


section \<open>The routes\<close>

text \<open>
  What the framework does around a handler: it validates the query or the body first
  and calls the handler only with valid input, and it validates the returned object
  against the route's response model.
\<close>

definition route_get_movies :: "int given \<Rightarrow> int given \<Rightarrow> database \<Rightarrow> (error + response) \<times> database" where
  "route_get_movies pg pp db =
     (case PaginationParams_validate pg pp of
        Inl e \<Rightarrow> (Inl e, db)
      | Inr params \<Rightarrow>
          (case get_movies params db of
             Inl e \<Rightarrow> (Inl e, db)
           | Inr r \<Rightarrow> (Inr (200, Listing r), db)))"

definition route_get_movie :: "int \<Rightarrow> database \<Rightarrow> (error + response) \<times> database" where
  "route_get_movie movie_id db =
     (case get_movie movie_id db of
        Inl e \<Rightarrow> (Inl e, db)
      | Inr film \<Rightarrow> (respond_detail 200 film, db))"

definition route_add_film ::
  "int \<Rightarrow> string list \<Rightarrow> int \<Rightarrow> request_body \<Rightarrow> database \<Rightarrow> (error + response) \<times> database" where
  "route_add_film today cols new_id body db =
     (case MovieCreateUpdateSchema_validate today body of
        Inl e \<Rightarrow> (Inl e, db)
      | Inr film \<Rightarrow>
          (case add_film cols new_id film db of
             (Inl e, db') \<Rightarrow> (Inl e, db')
           | (Inr new_film, db') \<Rightarrow> (respond_detail 201 new_film, db')))"

definition route_edit_film ::
  "int \<Rightarrow> string list \<Rightarrow> int \<Rightarrow> request_body \<Rightarrow> database \<Rightarrow> (error + response) \<times> database" where
  "route_edit_film today cols film_id body db =
     (case MovieCreateUpdateSchema_validate today body of
        Inl e \<Rightarrow> (Inl e, db)
      | Inr film \<Rightarrow>
          (case edit_film cols film_id film db of
             (Inl e, db') \<Rightarrow> (Inl e, db')
           | (Inr db_film, db') \<Rightarrow> (respond_detail 200 db_film, db')))"


section \<open>Sequences of requests\<close>




section \<open>Conditions on states and payloads\<close>

text \<open>The store's uniqueness constraint: no two rows share a (name, date) pair.\<close>

definition unique_name_date :: "database \<Rightarrow> bool" where
  "unique_name_date db =
     distinct (map (\<lambda>r. (map_of (snd r) ''name'', map_of (snd r) ''date'')) (tbl_movies db))"

text \<open>A (name, date) pair is held by a row of the store.\<close>

definition holds_name_date :: "database \<Rightarrow> string \<Rightarrow> int \<Rightarrow> bool" where
  "holds_name_date db n d =
     list_ex (\<lambda>r. map_of (snd r) ''name'' = Some (PStr n) \<and> map_of (snd r) ''date'' = Some (PDate d))
       (tbl_movies db)"

text \<open>
  A body with a value out of range: a score outside [0, 100], a negative budget or
  revenue, a date more than 365 days after today, a name of more than 255 characters,
  or a status that is none of the three.
\<close>

definition out_of_range :: "int \<Rightarrow> request_body \<Rightarrow> bool" where
  "out_of_range today body =
     ((case in_score body of Given v \<Rightarrow> v < 0 \<or> v > 100 | _ \<Rightarrow> False)
      \<or> (case in_budget body of Given v \<Rightarrow> v < 0 | _ \<Rightarrow> False)
      \<or> (case in_revenue body of Given v \<Rightarrow> v < 0 | _ \<Rightarrow> False)
      \<or> (case in_date body of Given v \<Rightarrow> v > today + 365 | _ \<Rightarrow> False)
      \<or> (case in_name body of Given v \<Rightarrow> length v > 255 | _ \<Rightarrow> False)
      \<or> (case in_status body of
            Given s \<Rightarrow> s \<notin> set (map status_value [RELEASED, POST_PRODUCTION, IN_PRODUCTION])
          | _ \<Rightarrow> False))"

text \<open>A body that leaves out one of the seven fields of a movie.\<close>

definition omits_field :: "request_body \<Rightarrow> bool" where
  "omits_field body =
     (in_name body = Missing \<or> in_date body = Missing \<or> in_score body = Missing
      \<or> in_overview body = Missing \<or> in_status body = Missing \<or> in_budget body = Missing
      \<or> in_revenue body = Missing)"


section \<open>Example data\<close>

text \<open>
  Modelled from the spec: the attributes of the Movie entity (section 3) as the column
  keys of \<^verbatim>\<open>MovieModel\<close>, with the country reference of the payload.
\<close>

definition example_columns :: "string list" where
  "example_columns =
     [''id'', ''name'', ''date'', ''score'', ''overview'', ''status'', ''budget'', ''revenue'',
      ''country_id'']"

text \<open>Two movies, the second without a country.\<close>

definition example_db :: database where
  "example_db =
     \<lparr>tbl_movies =
        [(1, [(''name'', PStr ''Inception''), (''date'', PDate 14806), (''score'', PFloat 87),
              (''overview'', PStr ''A thief''), (''status'', PEnum RELEASED),
              (''budget'', PDecimal 160000000), (''revenue'', PFloat 836800000),
              (''country_id'', PInt 1)]),
         (2, [(''name'', PStr ''Tenet''), (''date'', PDate 18500), (''score'', PFloat 70),
              (''overview'', PStr ''Time''), (''status'', PEnum RELEASED),
              (''budget'', PDecimal 200000000), (''revenue'', PFloat 363000000),
              (''country_id'', PNone)])],
      tbl_countries = [(1, Some ''US'')],
      tbl_genres = [(1, ''Action'')], tbl_actors = [], tbl_languages = [],
      movies_genres = [(1, 1)], movies_actors = [], movies_languages = []\<rparr>"

definition example_body :: request_body where
  "example_body =
     \<lparr>in_name = Given ''Dunkirk'', in_date = Given 17000, in_score = Given 80,
      in_overview = Given ''War'', in_status = Given ''Released'',
      in_budget = Given 100000000, in_revenue = Given 500000000,
      in_country_id = Given (Some 1), in_country = Missing, in_genre_ids = Missing,
      in_actor_ids = Missing, in_languages = Missing, in_extra = []\<rparr>"

text \<open>A body that sets the score and nothing else.\<close>

definition only_score :: request_body where
  "only_score =
     \<lparr>in_name = Missing, in_date = Missing, in_score = Given 90, in_overview = Missing,
      in_status = Missing, in_budget = Missing, in_revenue = Missing,
      in_country_id = Missing, in_country = Missing, in_genre_ids = Missing,
      in_actor_ids = Missing, in_languages = Missing, in_extra = []\<rparr>"

section \<open>Properties\<close>

subsection \<open>Validation of the request body\<close>

lemma status_roundtrip: "MovieStatusEnum_of (status_value e) = Some e"
  by (cases e) (simp_all add: MovieStatusEnum_of_def)

lemma errs_of_simps [simp]: "errs_of (Inl e) = [e]" "errs_of (Inr v) = []"
  by (simp_all add: errs_of_def)

lemma errs_of_Nil: "errs_of r = [] \<longleftrightarrow> \<not> isl r"
  by (cases r) simp_all

lemma required_simps [simp]:
  "required loc Missing f = Inl (loc, missing)"
  "required loc Invalid f = Inl (loc, invalid_type)"
  "required loc (Given v) f = (case f v of Inl e \<Rightarrow> Inl (loc, e) | Inr w \<Rightarrow> Inr w)"
  by (simp_all add: required_def)

lemma optional_simps [simp]:
  "optional loc Missing d = Inr d"
  "optional loc Invalid d = Inl (loc, invalid_type)"
  "optional loc (Given v) d = Inr v"
  by (simp_all add: optional_def)

lemma field_validator_isl [simp]: "isl (field_validator f v) = isl (f v)"
  by (cases "f v") (simp_all add: field_validator_def)

lemma isl_relabel [simp]: "isl (case r of Inl e \<Rightarrow> Inl (g e) | Inr w \<Rightarrow> Inr w) = isl r"
  by (cases r) simp_all

lemma required_ok: "\<not> isl (required loc g f) \<longleftrightarrow> (\<exists>v. g = Given v \<and> \<not> isl (f v))"
  by (cases g) (simp_all split: sum.splits)

lemma optional_ok: "\<not> isl (optional loc g d) \<longleftrightarrow> g \<noteq> Invalid"
  by (cases g) simp_all

text \<open>A body validates exactly when each of its twelve fields does.\<close>

lemma validation_errors_Nil:
  "validation_errors today b = [] \<longleftrightarrow>
     \<not> isl (required ''name'' (in_name b) (field_validator name_max_length))
   \<and> \<not> isl (required ''date'' (in_date b) (field_validator (date_within_one_year today)))
   \<and> \<not> isl (required ''score'' (in_score b) (field_validator score_between_0_and_100))
   \<and> \<not> isl (required ''overview'' (in_overview b) Inr)
   \<and> \<not> isl (required ''status'' (in_status b) status_field)
   \<and> \<not> isl (required ''budget'' (in_budget b) budget_field)
   \<and> \<not> isl (required ''revenue'' (in_revenue b) (field_validator non_negative_revenue))
   \<and> \<not> isl (required ''country_id'' (in_country_id b) Inr)
   \<and> \<not> isl (optional ''country'' (in_country b) None)
   \<and> \<not> isl (optional ''genre_ids'' (in_genre_ids b) (Some []))
   \<and> \<not> isl (optional ''actor_ids'' (in_actor_ids b) (Some []))
   \<and> \<not> isl (optional ''languages'' (in_languages b) (Some []))"
  unfolding validation_errors_def append_is_Nil_conv errs_of_Nil by (rule refl)

lemma validate_errors:
  "validation_errors today body \<noteq> [] \<Longrightarrow>
   MovieCreateUpdateSchema_validate today body
     = Inl (RequestValidationError (validation_errors today body))"
  by (simp add: MovieCreateUpdateSchema_validate_def)

lemma validate_Inr:
  "MovieCreateUpdateSchema_validate today body = Inr film \<Longrightarrow> validation_errors today body = []"
  by (simp add: MovieCreateUpdateSchema_validate_def split: if_splits)

text \<open>Keys of the body that the schema does not declare are ignored.\<close>

lemma unknown_keys_ignored:
  "MovieCreateUpdateSchema_validate today (body\<lparr>in_extra := ks\<rparr>)
     = MovieCreateUpdateSchema_validate today body"
  by (simp add: MovieCreateUpdateSchema_validate_def validation_errors_def fields_set_of_def)

text \<open>The framework does not call a handler with a body that failed validation.\<close>

lemma route_add_film_invalid:
  "validation_errors today body \<noteq> [] \<Longrightarrow>
   route_add_film today cols new_id body db
     = (Inl (RequestValidationError (validation_errors today body)), db)"
  by (simp add: route_add_film_def validate_errors)

lemma route_edit_film_invalid:
  "validation_errors today body \<noteq> [] \<Longrightarrow>
   route_edit_film today cols film_id body db
     = (Inl (RequestValidationError (validation_errors today body)), db)"
  by (simp add: route_edit_film_def validate_errors)

lemma out_of_range_errors:
  assumes "out_of_range today body"
  shows "validation_errors today body \<noteq> []"
proof -
  have "isl (required ''score'' (in_score body) (field_validator score_between_0_and_100))
      \<or> isl (required ''budget'' (in_budget body) budget_field)
      \<or> isl (required ''revenue'' (in_revenue body) (field_validator non_negative_revenue))
      \<or> isl (required ''date'' (in_date body) (field_validator (date_within_one_year today)))
      \<or> isl (required ''name'' (in_name body) (field_validator name_max_length))
      \<or> isl (required ''status'' (in_status body) status_field)"
    using assms unfolding out_of_range_def
    apply (elim disjE)
    subgoal by (cases "in_score body") (auto simp: score_between_0_and_100_def)
    subgoal by (cases "in_budget body") (auto simp: budget_field_def non_negative_budget_def)
    subgoal by (cases "in_revenue body") (auto simp: non_negative_revenue_def)
    subgoal by (cases "in_date body") (auto simp: date_within_one_year_def)
    subgoal by (cases "in_name body") (auto simp: name_max_length_def)
    subgoal
      by (cases "in_status body")
        (auto simp: status_field_def MovieStatusEnum_of_def split: sum.splits)
    done
  then show ?thesis
    unfolding validation_errors_Nil by blast
qed

lemma omits_field_errors:
  assumes "omits_field body"
  shows "validation_errors today body \<noteq> []"
proof -
  have "isl (required ''name'' (in_name body) (field_validator name_max_length))
      \<or> isl (required ''date'' (in_date body) (field_validator (date_within_one_year today)))
      \<or> isl (required ''score'' (in_score body) (field_validator score_between_0_and_100))
      \<or> isl (required ''overview'' (in_overview body) Inr)
      \<or> isl (required ''status'' (in_status body) status_field)
      \<or> isl (required ''budget'' (in_budget body) budget_field)
      \<or> isl (required ''revenue'' (in_revenue body) (field_validator non_negative_revenue))"
    using assms unfolding omits_field_def by (elim disjE) simp_all
  then show ?thesis
    unfolding validation_errors_Nil by blast
qed

subsection \<open>Values out of range\<close>

text \<open>
  C6. A create or an update whose body has a score outside [0, 100], a negative budget, a
  negative revenue, a date more than 365 days after today, a name of more than 255
  characters or a status outside the enumeration ends with a validation error (status
  422). The error is the same whatever the stored state is, and the state is returned
  as it was: the handler, and with it all storage access, is never reached.
\<close>

theorem out_of_range_payload_rejected:
  assumes "out_of_range today body"
  shows "validation_errors today body \<noteq> []
       \<and> status_code (RequestValidationError (validation_errors today body)) = 422
       \<and> (\<forall>new_id db. route_add_film today cols new_id body db
                 = (Inl (RequestValidationError (validation_errors today body)), db))
       \<and> (\<forall>film_id db. route_edit_film today cols film_id body db
                 = (Inl (RequestValidationError (validation_errors today body)), db))"
  using out_of_range_errors [OF assms]
  by (simp add: route_add_film_invalid route_edit_film_invalid)

theorem out_of_range_payload_rejected_witness:
  "out_of_range 20000 (example_body\<lparr>in_score := Given 150\<rparr>)
   \<and> validation_errors 20000 (example_body\<lparr>in_score := Given 150\<rparr>)
       = [(''score'', value_error ''Score must be between 0 and 100.'')]
   \<and> route_add_film 20000 example_columns 3 (example_body\<lparr>in_score := Given 150\<rparr>) example_db
       = (Inl (RequestValidationError [(''score'', value_error ''Score must be between 0 and 100.'')]),
          example_db)
   \<and> route_edit_film 20000 example_columns 1 (example_body\<lparr>in_score := Given 150\<rparr>) example_db
       = (Inl (RequestValidationError [(''score'', value_error ''Score must be between 0 and 100.'')]),
          example_db)"
proof -
  have h: "out_of_range 20000 (example_body\<lparr>in_score := Given 150\<rparr>)"
    by (simp add: out_of_range_def example_body_def)
  have e: "validation_errors 20000 (example_body\<lparr>in_score := Given 150\<rparr>)
       = [(''score'', value_error ''Score must be between 0 and 100.'')]"
    by code_simp
  from out_of_range_payload_rejected [OF h, of example_columns] h e show ?thesis
    by simp
qed

subsection \<open>Required fields\<close>

text \<open>
  C10. An update whose body leaves out one of name, date, score, overview, status,
  budget and revenue ends with a validation error (status 422), the same whatever the
  identifier and the stored state are, and the state is returned as it was: the stored
  record is neither read nor changed.
\<close>

theorem update_requires_all_fields:
  assumes "omits_field body"
  shows "validation_errors today body \<noteq> []
       \<and> status_code (RequestValidationError (validation_errors today body)) = 422
       \<and> (\<forall>film_id db. route_edit_film today cols film_id body db
                 = (Inl (RequestValidationError (validation_errors today body)), db))"
  using omits_field_errors [OF assms]
  by (simp add: route_edit_film_invalid)

theorem update_requires_all_fields_witness:
  "omits_field (example_body\<lparr>in_overview := Missing\<rparr>)
   \<and> validation_errors 20000 (example_body\<lparr>in_overview := Missing\<rparr>)
       = [(''overview'', missing)]
   \<and> route_edit_film 20000 example_columns 1 (example_body\<lparr>in_overview := Missing\<rparr>) example_db
       = (Inl (RequestValidationError [(''overview'', missing)]), example_db)"
proof -
  have h: "omits_field (example_body\<lparr>in_overview := Missing\<rparr>)"
    by (simp add: omits_field_def example_body_def)
  have e: "validation_errors 20000 (example_body\<lparr>in_overview := Missing\<rparr>)
       = [(''overview'', missing)]"
    by code_simp
  from update_requires_all_fields [OF h, of 20000 example_columns] h e show ?thesis
    by simp
qed

subsection \<open>The list operation\<close>

lemma PaginationParams_valid:
  "1 \<le> pg \<Longrightarrow> 1 \<le> pp \<Longrightarrow> pp \<le> 20 \<Longrightarrow>
   PaginationParams_validate (Given pg) (Given pp) = Inr \<lparr>page = pg, per_page = pp\<rparr>"
  by (simp add: PaginationParams_validate_def)

lemma PaginationParams_Inr:
  "PaginationParams_validate pg pp = Inr params \<Longrightarrow>
   1 \<le> page params \<and> 1 \<le> per_page params \<and> per_page params \<le> 20
   \<and> page params = (case pg of Given v \<Rightarrow> v | _ \<Rightarrow> 1)
   \<and> per_page params = (case pp of Given v \<Rightarrow> v | _ \<Rightarrow> 10)"
  by (cases pg; cases pp) (auto simp: PaginationParams_validate_def split: if_splits)

lemma select_page_Nil:
  "0 < limit \<Longrightarrow> 0 \<le> offset \<Longrightarrow>
   select_page db offset limit = [] \<longleftrightarrow> int (length (tbl_movies db)) \<le> offset"
  by (auto simp: select_page_def)

lemma ceiling_div_bounds:
  fixes a b :: int
  assumes "0 < b"
  shows "a \<le> \<lceil>of_int a / (of_int b :: rat)\<rceil> * b
       \<and> (\<lceil>of_int a / (of_int b :: rat)\<rceil> - 1) * b < a"
proof -
  let ?c = "\<lceil>of_int a / (of_int b :: rat)\<rceil>"
  have b: "(0 :: rat) < of_int b" using assms by simp
  have "of_int a / (of_int b :: rat) \<le> of_int ?c" by (rule le_of_int_ceiling)
  then have "(of_int a :: rat) \<le> of_int ?c * of_int b"
    using pos_divide_le_eq [OF b, of "of_int a" "of_int ?c"] by blast
  then have "(of_int a :: rat) \<le> of_int (?c * b)" by simp
  then have 1: "a \<le> ?c * b" by (simp only: of_int_le_iff)
  have "of_int ?c - 1 < of_int a / (of_int b :: rat)"
    using ceiling_correct [of "of_int a / (of_int b :: rat)"] by simp
  then have "(of_int ?c - 1) * of_int b < (of_int a :: rat)"
    using pos_less_divide_eq [OF b, of "of_int ?c - 1" "of_int a"] by blast
  then have "(of_int ((?c - 1) * b) :: rat) < of_int a" by simp
  then have 2: "(?c - 1) * b < a" by (simp only: of_int_less_iff)
  from 1 2 show ?thesis by simp
qed

text \<open>
  C3. For a valid page and per_page, when the page's query returns no rows the list
  operation answers 404 ``No movies found.'' and leaves the state alone. The page is then
  at or past the end of the table, which includes the empty table: a page beyond the
  last one and an empty catalogue get the same answer.
\<close>

theorem empty_page_not_found:
  assumes "1 \<le> pg" and "1 \<le> pp" and "pp \<le> 20"
    and "select_page db ((pg - 1) * pp) pp = []"
  shows "route_get_movies (Given pg) (Given pp) db
           = (Inl (HTTPException 404 ''No movies found.''), db)
       \<and> int (length (tbl_movies db)) \<le> (pg - 1) * pp"
proof -
  have "int (length (tbl_movies db)) \<le> (pg - 1) * pp"
    using assms select_page_Nil [of pp "(pg - 1) * pp" db] by simp
  moreover have "route_get_movies (Given pg) (Given pp) db
           = (Inl (HTTPException 404 ''No movies found.''), db)"
    using assms
    by (simp add: route_get_movies_def PaginationParams_valid get_movies_def)
  ultimately show ?thesis by simp
qed

lemma get_movies_Inr:
  assumes "get_movies params db = Inr r" and "0 < per_page params"
  shows "total_items r = int (length (tbl_movies db))
    \<and> total_pages r = \<lceil>of_int (total_items r) / (of_int (per_page params) :: rat)\<rceil>
    \<and> next_page r = (if page params < total_pages r then Some (page params + 1) else None)
    \<and> prev_page r = (if page params > 1 then Some (page params - 1) else None)"
  using assms
  by (auto simp: get_movies_def Let_def split: if_splits option.splits)

text \<open>
  C4. Every successful list response for valid parameters is a 200 that leaves the state
  alone and carries: total_items, the number of rows of the whole table; total_pages, the
  ceiling of total_items / per_page, that is the least number of pages of per_page rows
  that hold total_items rows; next_page, page + 1 when page is below total_pages and
  absent otherwise; prev_page, page - 1 when page is above 1 and absent otherwise.
\<close>

theorem list_pagination_metadata:
  assumes "PaginationParams_validate pg pp = Inr params"
    and "route_get_movies pg pp db = (Inr (code, Listing r), db')"
  shows "code = 200 \<and> db' = db
    \<and> 1 \<le> page params \<and> 1 \<le> per_page params \<and> per_page params \<le> 20
    \<and> total_items r = int (length (tbl_movies db))
    \<and> total_pages r = \<lceil>of_int (total_items r) / (of_int (per_page params) :: rat)\<rceil>
    \<and> total_items r \<le> total_pages r * per_page params
    \<and> (total_pages r - 1) * per_page params < total_items r
    \<and> next_page r = (if page params < total_pages r then Some (page params + 1) else None)
    \<and> prev_page r = (if page params > 1 then Some (page params - 1) else None)"
proof -
  have v: "1 \<le> page params \<and> 1 \<le> per_page params \<and> per_page params \<le> 20"
    using PaginationParams_Inr [OF assms(1)] by simp
  have g: "get_movies params db = Inr r \<and> code = 200 \<and> db' = db"
    using assms by (auto simp: route_get_movies_def split: sum.splits)
  have m: "total_items r = int (length (tbl_movies db))
    \<and> total_pages r = \<lceil>of_int (total_items r) / (of_int (per_page params) :: rat)\<rceil>
    \<and> next_page r = (if page params < total_pages r then Some (page params + 1) else None)
    \<and> prev_page r = (if page params > 1 then Some (page params - 1) else None)"
    using get_movies_Inr [of params db r] g v by simp
  have c: "total_items r \<le> total_pages r * per_page params
    \<and> (total_pages r - 1) * per_page params < total_items r"
    using ceiling_div_bounds [of "per_page params" "total_items r"] v m by simp
  from v g m c show ?thesis by simp
qed


theorem empty_page_not_found_witness:
  "(1::int) \<le> 3 \<and> (1::int) \<le> 1 \<and> (1::int) \<le> 20
   \<and> select_page example_db ((3 - 1) * 1) 1 = []
   \<and> select_page example_db ((1 - 1) * 1) 1 \<noteq> []
   \<and> route_get_movies (Given 3) (Given 1) example_db
       = (Inl (HTTPException 404 ''No movies found.''), example_db)"
proof -
  have h: "select_page example_db ((3 - 1) * 1) 1 = []"
    by code_simp
  have o: "select_page example_db ((1 - 1) * 1) 1 \<noteq> []"
    by code_simp
  from empty_page_not_found [OF _ _ _ h] h o show ?thesis
    by simp
qed

theorem list_pagination_metadata_witness:
  "PaginationParams_validate (Given 2) (Given 1) = Inr \<lparr>page = 2, per_page = 1\<rparr>
   \<and> route_get_movies (Given 2) (Given 1) example_db
       = (Inr (200, Listing
            \<lparr>resp_movies =
               [\<lparr>item_id = 1, item_name = ''Inception'', item_date = 14806, item_score = 87,
                 item_overview = ''A thief''\<rparr>],
             total_pages = 2, total_items = 2, next_page = None, prev_page = Some 1\<rparr>),
          example_db)
   \<and> (2::int) = int (length (tbl_movies example_db))
   \<and> (2::int) = \<lceil>of_int 2 / (of_int 1 :: rat)\<rceil>"
proof -
  let ?r = "\<lparr>resp_movies =
               [\<lparr>item_id = 1, item_name = ''Inception'', item_date = 14806, item_score = 87,
                 item_overview = ''A thief''\<rparr>],
             total_pages = 2, total_items = 2, next_page = None, prev_page = Some 1\<rparr>"
  have v: "PaginationParams_validate (Given 2) (Given 1) = Inr \<lparr>page = 2, per_page = 1\<rparr>"
    by (simp add: PaginationParams_validate_def)
  have h: "route_get_movies (Given 2) (Given 1) example_db = (Inr (200, Listing ?r), example_db)"
    by code_simp
  from list_pagination_metadata [OF v h] v h show ?thesis
    by simp
qed

subsection \<open>The create operation: duplicates\<close>

lemma filter_distinct_key:
  "distinct (map f xs) \<Longrightarrow> x \<in> set xs \<Longrightarrow> filter (\<lambda>z. f z = f x) xs = [x]"
proof (induction xs)
  case Nil
  then show ?case by simp
next
  case (Cons a xs)
  show ?case
  proof (cases "a = x")
    case True
    have "filter (\<lambda>z. f z = f x) xs = []"
      using Cons.prems True by (force simp: filter_empty_conv image_iff)
    with True show ?thesis by simp
  next
    case False
    with Cons.prems have "x \<in> set xs" and "f a \<noteq> f x" by auto
    with Cons show ?thesis by simp
  qed
qed

lemma scalar_one_or_none_simps [simp]:
  "scalar_one_or_none [] = Inr None"
  "scalar_one_or_none [r] = Inr (Some r)"
  by (simp_all add: scalar_one_or_none_def)

lemma add_film_at_conflict:
  assumes "unique_name_date dbq" and "holds_name_date dbq (name film) (date film)"
  shows "add_film_at cols new_id film dbq dbc
         = (Inl (HTTPException 409 ''Movie with the same name and date already exists.''), dbc)"
proof -
  let ?f = "\<lambda>r :: int \<times> attrs. (map_of (snd r) ''name'', map_of (snd r) ''date'')"
  from assms(2) obtain x where x: "x \<in> set (tbl_movies dbq)"
    and fx: "?f x = (Some (PStr (name film)), Some (PDate (date film)))"
    by (auto simp: holds_name_date_def list_ex_iff)
  have "filter (\<lambda>z. ?f z = ?f x) (tbl_movies dbq) = [x]"
    using assms(1) x unfolding unique_name_date_def by (rule filter_distinct_key)
  then have "filter (\<lambda>r. map_of (snd r) ''name'' = Some (PStr (name film))
                          \<and> map_of (snd r) ''date'' = Some (PDate (date film)))
                (tbl_movies dbq) = [x]"
    unfolding fx by simp
  then show ?thesis
    by (simp add: add_film_at_def)
qed

text \<open>
  C5. In a store that keeps its uniqueness constraint, a create whose (name, date) pair is
  held by a stored movie ends with the conflict error 409 ``Movie with the same name and
  date already exists.'' and leaves the state alone, whatever the other fields of the
  payload are: for the handler on every validated payload, and so for the route on
  every body that validates to it.
\<close>

theorem duplicate_name_date_conflict:
  assumes "unique_name_date db" and "holds_name_date db (name film) (date film)"
  shows "add_film cols new_id film db
           = (Inl (HTTPException 409 ''Movie with the same name and date already exists.''), db)
       \<and> (\<forall>today body.
            MovieCreateUpdateSchema_validate today body = Inr film \<longrightarrow>
            route_add_film today cols new_id body db
              = (Inl (HTTPException 409 ''Movie with the same name and date already exists.''),
                 db))
       \<and> status_code (HTTPException 409 ''Movie with the same name and date already exists.'')
           = 409"
  using add_film_at_conflict [OF assms, of cols new_id db]
  by (simp add: add_film_def route_add_film_def)

theorem duplicate_name_date_conflict_witness:
  "unique_name_date example_db
   \<and> holds_name_date example_db ''Inception'' 14806
   \<and> MovieCreateUpdateSchema_validate 20000
         (example_body\<lparr>in_name := Given ''Inception'', in_date := Given 14806\<rparr>)
       = Inr \<lparr>name = ''Inception'', date = 14806, score = 80, overview = ''War'',
              status = RELEASED, budget = 100000000, revenue = 500000000,
              country_id = Some 1, country = None, genre_ids = Some [],
              actor_ids = Some [], languages = Some [],
              fields_set = [''name'', ''date'', ''score'', ''overview'', ''status'', ''budget'',
                            ''revenue'', ''country_id'']\<rparr>
   \<and> route_add_film 20000 example_columns 3
         (example_body\<lparr>in_name := Given ''Inception'', in_date := Given 14806\<rparr>) example_db
       = (Inl (HTTPException 409 ''Movie with the same name and date already exists.''),
          example_db)"
proof -
  let ?film = "\<lparr>name = ''Inception'', date = 14806, score = 80, overview = ''War'',
              status = RELEASED, budget = 100000000, revenue = 500000000,
              country_id = Some 1, country = None, genre_ids = Some [],
              actor_ids = Some [], languages = Some [],
              fields_set = [''name'', ''date'', ''score'', ''overview'', ''status'', ''budget'',
                            ''revenue'', ''country_id'']\<rparr>"
  have u: "unique_name_date example_db" by code_simp
  have h: "holds_name_date example_db ''Inception'' 14806" by code_simp
  have h': "holds_name_date example_db (name ?film) (date ?film)" using h by simp
  have v: "MovieCreateUpdateSchema_validate 20000
         (example_body\<lparr>in_name := Given ''Inception'', in_date := Given 14806\<rparr>) = Inr ?film"
    by code_simp
  from duplicate_name_date_conflict [OF u h', of example_columns 3] u h v show ?thesis
    by blast
qed

subsection \<open>The delete operation\<close>


lemma get_film_or_404_Inr:
  assumes "get_film_or_404 db film_id = Inr film"
  shows "\<exists>row. filter (\<lambda>r. fst r = film_id) (tbl_movies db) = [(film_id, row)]
         \<and> film = load db (film_id, row)"
proof -
  obtain r where f: "filter (\<lambda>r. fst r = film_id) (tbl_movies db) = [r]"
    and l: "film = load db r"
    using assms
    by (auto simp: get_film_or_404_def scalar_one_or_none_def
        split: list.splits sum.splits option.splits)
  have "r \<in> set (filter (\<lambda>r. fst r = film_id) (tbl_movies db))"
    unfolding f by simp
  then have "fst r = film_id" by simp
  then have "r = (film_id, snd r)" by (cases r) simp
  with f l show ?thesis by metis
qed




lemma route_get_movies_state [simp]: "snd (route_get_movies pg pp db) = db"
  by (simp add: route_get_movies_def split: sum.splits)

lemma route_get_movie_state [simp]: "snd (route_get_movie movie_id db) = db"
  by (simp add: route_get_movie_def split: sum.splits)











subsection \<open>Get by id: a movie without a country\<close>

lemma detail_needs_country:
  "m_country film = PNone \<Longrightarrow> MovieDetailSchema_validate film = None"
  by (simp add: MovieDetailSchema_validate_def getattr_def CountrySchema_validate_def
      split: Option.bind_split)

lemma get_movie_without_country:
  assumes "get_film_or_404 db movie_id = Inr film" and "m_country film = PNone"
  shows "route_get_movie movie_id db = (Inl ResponseValidationError, db)"
  using assms
  by (simp add: route_get_movie_def get_movie_def respond_detail_def detail_needs_country)

text \<open>A movie with a country is served with its detail view.\<close>

lemma get_movie_with_country_example:
  "route_get_movie 1 example_db
     = (Inr (200, Detail
          \<lparr>detail_id = 1, detail_name = ''Inception'', detail_date = 14806, detail_score = 87,
           detail_overview = ''A thief'', detail_status = RELEASED, detail_budget = 160000000,
           detail_revenue = 836800000,
           detail_country = \<lparr>country_schema_id = 1, country_schema_name = Some ''US''\<rparr>,
           detail_genres = [\<lparr>named_id = 1, named_name = ''Action''\<rparr>],
           detail_actors = [], detail_languages = []\<rparr>),
        example_db)"
  by code_simp

lemma country_of_null:
  "map_of row ''country_id'' = Some PNone \<Longrightarrow> country_of db row = PNone"
  by (simp add: country_of_def)

text \<open>
  An update whose body has \<^verbatim>\<open>country_id: null\<close>, which the schema accepts, leaves movie 1
  without a country; get-by-id then fails for it as well.
\<close>

lemma movie_without_country_by_update:
  "fst (route_get_movie 1
         (snd (route_edit_film 20000 example_columns 1
                 (example_body\<lparr>in_country_id := Given None\<rparr>) example_db)))
     = Inl ResponseValidationError"
  by code_simp

text \<open>
  C7. The claim is that get-by-id returns the detail view of every stored movie, one
  without a country included. Movie 2 of the example has no country: the handler finds
  it, and the response model, whose \<^verbatim>\<open>country\<close> field is a \<^verbatim>\<open>CountrySchema\<close> and not
  optional, refuses it, so the request ends as an unhandled error (status 500).
\<close>

theorem get_movie_without_country_fails:
  "\<not> isl (get_movie 2 example_db)
   \<and> m_country (projr (get_movie 2 example_db)) = PNone
   \<and> route_get_movie 2 example_db = (Inl ResponseValidationError, example_db)
   \<and> status_code ResponseValidationError = 500"
  by code_simp

subsection \<open>Create: what the constructor is given\<close>

lemma init_country_name_fails:
  "country film = Some c \<Longrightarrow> isl (MovieModel_init cols (dict film))"
  by (simp add: MovieModel_init_def dict_def hasattr_MovieModel_def relationships_def
      setattr_def)

lemma init_needs_genre_ids:
  "''genre_ids'' \<notin> set cols \<Longrightarrow> isl (MovieModel_init cols (dict film))"
  by (cases "country film")
    (simp_all add: MovieModel_init_def dict_def hasattr_MovieModel_def relationships_def
      setattr_def)

lemma init_needs_actor_ids:
  "''actor_ids'' \<notin> set cols \<Longrightarrow> isl (MovieModel_init cols (dict film))"
  by (cases "country film"; cases "genre_ids film")
    (simp_all add: MovieModel_init_def dict_def hasattr_MovieModel_def relationships_def
      setattr_def)

lemma init_language_names_fail:
  "languages film = Some (l # ls) \<Longrightarrow> isl (MovieModel_init cols (dict film))"
  by (cases "country film"; cases "genre_ids film"; cases "actor_ids film")
    (simp_all add: MovieModel_init_def dict_def hasattr_MovieModel_def relationships_def
      setattr_def str_list_def)

lemma add_film_at_init_fails:
  assumes "isl (MovieModel_init cols (dict film))"
  shows "isl (fst (add_film_at cols new_id film dbq dbc))
         \<and> snd (add_film_at cols new_id film dbq dbc) = dbc"
  using assms
  by (cases "MovieModel_init cols (dict film)")
    (auto simp: add_film_at_def split: sum.splits option.splits)

lemma add_film_init_fails:
  assumes "isl (MovieModel_init cols (dict film))"
  shows "isl (fst (add_film cols new_id film db)) \<and> snd (add_film cols new_id film db) = db"
  using add_film_at_init_fails [OF assms] by (simp add: add_film_def)

text \<open>With the columns of the spec's Movie entity no create gets as far as the store.\<close>

lemma add_film_example_columns_fails:
  "isl (fst (add_film example_columns new_id film db))
   \<and> snd (add_film example_columns new_id film db) = db"
  by (rule add_film_init_fails, rule init_needs_genre_ids) (simp add: example_columns_def)

lemma route_add_film_init_fails:
  assumes "MovieCreateUpdateSchema_validate today body = Inr film"
    and "isl (MovieModel_init cols (dict film))"
  shows "isl (fst (route_add_film today cols new_id body db))
         \<and> snd (route_add_film today cols new_id body db) = db"
  using assms(1) add_film_init_fails [OF assms(2), of new_id db]
  by (cases "add_film cols new_id film db"; cases "fst (add_film cols new_id film db)")
    (simp_all add: route_add_film_def)

text \<open>
  C8. The claim is that every valid, non-duplicate create persists the movie and answers
  201 with its detail view. \<^verbatim>\<open>add_film\<close> passes all twelve keys of \<^verbatim>\<open>film.dict()\<close> to the
  constructor of \<^verbatim>\<open>MovieModel\<close>. A valid payload that names its country gives the
  relationship \<^verbatim>\<open>country\<close> a string, which the ORM refuses: for every declaration of the
  columns, every identifier and every state the request fails and persists nothing, also
  under a declaration that has \<^verbatim>\<open>genre_ids\<close> and \<^verbatim>\<open>actor_ids\<close> as attributes. With the
  columns of the spec's Movie entity, \<^verbatim>\<open>genre_ids\<close> is no attribute of the class and the
  constructor refuses every payload. Either way the request ends as an unhandled error
  (status 500).
\<close>

theorem create_with_country_name_fails:
  "(\<forall>cols new_id db.
      isl (fst (route_add_film 20000 cols new_id
                  (example_body\<lparr>in_country := Given (Some ''USA'')\<rparr>) db))
      \<and> snd (route_add_film 20000 cols new_id
                  (example_body\<lparr>in_country := Given (Some ''USA'')\<rparr>) db) = db)
   \<and> route_add_film 20000 (example_columns @ [''genre_ids'', ''actor_ids'']) 3
      (example_body\<lparr>in_country := Given (Some ''USA'')\<rparr>) example_db
     = (Inl AttributeError, example_db)
   \<and> route_add_film 20000 example_columns 3
      (example_body\<lparr>in_country := Given (Some ''USA'')\<rparr>) example_db
     = (Inl AttributeError, example_db)
   \<and> route_add_film 20000 example_columns 3 example_body example_db
     = (Inl TypeError, example_db)
   \<and> status_code AttributeError = 500 \<and> status_code TypeError = 500"
proof -
  let ?body = "example_body\<lparr>in_country := Given (Some ''USA'')\<rparr>"
  let ?film = "\<lparr>name = ''Dunkirk'', date = 17000, score = 80, overview = ''War'',
      status = RELEASED, budget = 100000000, revenue = 500000000, country_id = Some 1,
      country = Some ''USA'', genre_ids = Some [], actor_ids = Some [], languages = Some [],
      fields_set = [''name'', ''date'', ''score'', ''overview'', ''status'', ''budget'',
                    ''revenue'', ''country_id'', ''country'']\<rparr>"
  have v: "MovieCreateUpdateSchema_validate 20000 ?body = Inr ?film"
    by code_simp
  have i: "isl (MovieModel_init cols (dict ?film))" for cols
    by (rule init_country_name_fails [of _ "''USA''"]) simp
  have g: "isl (fst (route_add_film 20000 cols new_id ?body db))
      \<and> snd (route_add_film 20000 cols new_id ?body db) = db" for cols new_id db
    using v i by (rule route_add_film_init_fails)
  have e1: "route_add_film 20000 (example_columns @ [''genre_ids'', ''actor_ids'']) 3 ?body
      example_db = (Inl AttributeError, example_db)"
    by code_simp
  have e2: "route_add_film 20000 example_columns 3 ?body example_db
      = (Inl AttributeError, example_db)"
    by code_simp
  have e3: "route_add_film 20000 example_columns 3 example_body example_db
      = (Inl TypeError, example_db)"
    by code_simp
  from g e1 e2 e3 show ?thesis by simp
qed

subsection \<open>Create: a commit the store refuses\<close>

text \<open>
  \<^verbatim>\<open>add_film\<close> has no handler around its commit. Whatever the declaration of the
  columns: once the duplicate query has found nothing, the request cannot end with
  the 409; and where the constructor accepts the payload and the store refuses the
  row, the \<^verbatim>\<open>IntegrityError\<close> is what the request ends with.
\<close>

lemma init_loop_error:
  "init_loop cols m kwargs = Inl e \<Longrightarrow> e = TypeError \<or> e = AttributeError"
proof (induction kwargs arbitrary: m)
  case Nil
  then show ?case by simp
next
  case (Cons kv kwargs)
  then show ?case
    by (auto simp: setattr_def split: if_splits sum.splits pyval.splits)
qed

lemma add_film_at_no_conflict_after_check:
  assumes "filter (\<lambda>r. map_of (snd r) ''name'' = Some (PStr (name film))
                          \<and> map_of (snd r) ''date'' = Some (PDate (date film)))
                (tbl_movies dbq) = []"
  shows "fst (add_film_at cols new_id film dbq dbc)
         \<noteq> Inl (HTTPException 409 ''Movie with the same name and date already exists.'')"
  using assms init_loop_error [of cols _ "dict film"]
  by (auto simp: add_film_at_def scalar_one_or_none_def MovieModel_init_def commit_insert_def
      split: sum.splits if_splits)

lemma add_film_at_storage_rejects:
  assumes "filter (\<lambda>r. map_of (snd r) ''name'' = Some (PStr (name film))
                          \<and> map_of (snd r) ''date'' = Some (PDate (date film)))
                (tbl_movies dbq) = []"
    and "MovieModel_init cols (dict film) = Inr new_film"
    and "commit_insert dbc new_id new_film = Inl e"
  shows "add_film_at cols new_id film dbq dbc = (Inl IntegrityError, dbc)"
  using assms
  by (auto simp: add_film_at_def scalar_one_or_none_def commit_insert_def split: if_splits)

subsection \<open>The update operation\<close>

lemma setattr_column:
  "k \<notin> set relationships \<Longrightarrow>
   setattr m k v = Inr (m\<lparr>m_columns := AList.update k v (m_columns m)\<rparr>)"
  by (auto simp: setattr_def relationships_def)

text \<open>
  When no column key is a relationship name, the loop of \<open>edit_film\<close> cannot fail, and
  it changes the column attributes only: each key of the data that is a column gets the
  data's value (the last one, were a key to occur twice).
\<close>

lemma setattr_loop_columns:
  assumes "set cols \<inter> set relationships = {}"
  shows "\<exists>m'. setattr_loop cols m film_data = Inr m'
     \<and> m' = m\<lparr>m_columns := m_columns m'\<rparr>
     \<and> map_of (m_columns m')
         = map_of (m_columns m) ++ map_of (rev (filter (\<lambda>kv. fst kv \<in> set cols) film_data))"
proof (induction film_data arbitrary: m)
  case Nil
  show ?case by simp
next
  case (Cons kv film_data)
  show ?case
  proof (cases "fst kv \<in> set cols")
    case False
    with Cons [of m] show ?thesis by simp
  next
    case True
    with assms have "fst kv \<notin> set relationships" by blast
    then have s: "setattr m (fst kv) (snd kv)
        = Inr (m\<lparr>m_columns := AList.update (fst kv) (snd kv) (m_columns m)\<rparr>)"
      by (rule setattr_column)
    let ?m1 = "m\<lparr>m_columns := AList.update (fst kv) (snd kv) (m_columns m)\<rparr>"
    from Cons [of ?m1] obtain m' where m': "setattr_loop cols ?m1 film_data = Inr m'"
      "m' = ?m1\<lparr>m_columns := m_columns m'\<rparr>"
      "map_of (m_columns m')
         = map_of (m_columns ?m1) ++ map_of (rev (filter (\<lambda>kv. fst kv \<in> set cols) film_data))"
      by blast
    have 1: "setattr_loop cols m (kv # film_data) = Inr m'"
      using True s m'(1) by simp
    have 2: "m' = m\<lparr>m_columns := m_columns m'\<rparr>"
      using m'(2) by simp
    have "map_of (m_columns ?m1) = (map_of (m_columns m))(fst kv \<mapsto> snd kv)"
      by (simp add: update_conv')
    then have 3: "map_of (m_columns m')
         = map_of (m_columns m)
           ++ map_of (rev (filter (\<lambda>kv. fst kv \<in> set cols) (kv # film_data)))"
      using m'(3) True by (cases kv) simp
    from 1 2 3 show ?thesis by blast
  qed
qed

lemma map_of_rev_distinct_keys:
  "distinct (map fst xs) \<Longrightarrow> map_of (rev xs) k = map_of xs k"
proof (induction xs)
  case Nil
  show ?case by simp
next
  case (Cons x xs)
  then have "map_of xs (fst x) = None"
    by (simp add: map_of_eq_None_iff)
  with Cons show ?case
    by (cases x) (auto simp: map_add_def split: option.splits)
qed

lemma map_of_filter_keys:
  "map_of (filter (\<lambda>kv. P (fst kv)) xs) k = (if P k then map_of xs k else None)"
  by (induction xs) auto

lemma dict_keys:
  "map fst (dict film)
     = [''name'', ''date'', ''score'', ''overview'', ''status'', ''budget'', ''revenue'',
        ''country_id'', ''country'', ''genre_ids'', ''actor_ids'', ''languages'']"
  by (simp add: dict_def)

lemma dict_distinct: "distinct (map fst (dict film))"
  unfolding dict_keys by simp

text \<open>What the loop of \<open>edit_film\<close> writes, key by key.\<close>

lemma film_data_lookup:
  "map_of (rev (filter (\<lambda>kv. fst kv \<in> set cols) (dict_exclude_unset film))) k
     = (if k \<in> set cols \<and> k \<in> set (fields_set film) then map_of (dict film) k else None)"
proof -
  have "distinct (map fst (filter (\<lambda>kv. fst kv \<in> set cols) (dict_exclude_unset film)))"
    unfolding dict_exclude_unset_def by (simp add: distinct_map_filter dict_distinct)
  then have "map_of (rev (filter (\<lambda>kv. fst kv \<in> set cols) (dict_exclude_unset film))) k
      = map_of (filter (\<lambda>kv. fst kv \<in> set cols) (dict_exclude_unset film)) k"
    by (rule map_of_rev_distinct_keys)
  also have "\<dots> = (if k \<in> set cols \<and> k \<in> set (fields_set film) then map_of (dict film) k
                    else None)"
    unfolding dict_exclude_unset_def filter_filter
    using map_of_filter_keys
      [of "\<lambda>k. k \<in> set (fields_set film) \<and> k \<in> set cols" "dict film" k]
    by (simp add: conj_commute)
  finally show ?thesis .
qed

lemma load_columns [simp]: "m_columns (load db row) = snd row"
  by (simp add: load_def)

lemma load_not_assigned [simp]: "m_country_assigned (load db row) = False"
  by (simp add: load_def)

text \<open>
  The handler on the payload it is given: where no column key is a relationship name,
  an update that succeeds writes to the row of the movie, for every key that is a column
  and is in the set of fields the payload has set, the payload's value, and leaves every
  other key of the row, every other row and every other table as it was. A field that
  was set and is no column is ignored. Had the handler been given a payload whose only
  set field is the score, it would have changed the score and nothing else.
\<close>

lemma edit_film_frame:
  assumes "set cols \<inter> set relationships = {}"
    and "edit_film cols film_id film db = (Inr film', db')"
  shows "\<exists>row row'.
      filter (\<lambda>r. fst r = film_id) (tbl_movies db) = [(film_id, row)]
    \<and> db' = db\<lparr>tbl_movies :=
                 map (\<lambda>r. if fst r = film_id then (film_id, row') else r) (tbl_movies db)\<rparr>
    \<and> film' = load db' (film_id, row')
    \<and> (\<forall>k. map_of row' k
           = (if k \<in> set cols \<and> k \<in> set (fields_set film) \<and> k \<in> fst ` set (dict film)
              then map_of (dict film) k else map_of row k))"
proof -
  obtain db_film where g: "get_film_or_404 db film_id = Inr db_film"
    using assms(2) by (cases "get_film_or_404 db film_id") (simp_all add: edit_film_def)
  from get_film_or_404_Inr [OF g] obtain row
    where row: "filter (\<lambda>r. fst r = film_id) (tbl_movies db) = [(film_id, row)]"
      and l: "db_film = load db (film_id, row)"
    by blast
  from setattr_loop_columns [OF assms(1), of db_film "dict_exclude_unset film"]
  obtain m' where m': "setattr_loop cols db_film (dict_exclude_unset film) = Inr m'"
    and same: "m' = db_film\<lparr>m_columns := m_columns m'\<rparr>"
    and c: "map_of (m_columns m')
         = map_of (m_columns db_film)
           ++ map_of (rev (filter (\<lambda>kv. fst kv \<in> set cols) (dict_exclude_unset film)))"
    by blast
  have "m_country_assigned m' = m_country_assigned db_film"
    by (subst same) simp
  then have fl: "flush_columns m' = m_columns m'"
    by (simp add: flush_columns_def l)
  obtain d where d: "commit_update db film_id m' = Inr d"
    using assms(2) g m'
    by (cases "commit_update db film_id m'") (simp_all add: edit_film_def)
  have r: "film' = load d (film_id, m_columns m')" "db' = d"
    using assms(2) g m' d fl by (auto simp: edit_film_def)
  have u: "d = db\<lparr>tbl_movies :=
                 map (\<lambda>r. if fst r = film_id then (film_id, m_columns m') else r)
                   (tbl_movies db)\<rparr>"
    using d unfolding commit_update_def fl by (simp split: if_splits)
  have k: "map_of (m_columns m') k
           = (if k \<in> set cols \<and> k \<in> set (fields_set film) \<and> k \<in> fst ` set (dict film)
              then map_of (dict film) k else map_of row k)" for k
  proof (cases "k \<in> fst ` set (dict film)")
    case False
    then have "map_of (dict film) k = None"
      by (simp add: map_of_eq_None_iff)
    then show ?thesis
      unfolding c map_add_def film_data_lookup using False l by simp
  next
    case True
    then obtain v where "map_of (dict film) k = Some v"
      by (metis map_of_eq_None_iff not_Some_eq)
    with True l show ?thesis
      unfolding c map_add_def film_data_lookup by simp
  qed
  from row r u k show ?thesis
    by (intro exI [of _ row] exI [of _ "m_columns m'"]) simp
qed

text \<open>
  The handler given a payload that has set its score only (the other fields of the record
  are not in \<open>fields_set\<close>, so \<^verbatim>\<open>exclude_unset\<close> drops them): the score of movie 1
  changes, nothing else does.
\<close>

lemma edit_film_score_only_set:
  "snd (edit_film example_columns 1
          \<lparr>name = [], date = 0, score = 90, overview = [], status = RELEASED, budget = 0,
           revenue = 0, country_id = None, country = None, genre_ids = Some [],
           actor_ids = Some [], languages = Some [], fields_set = [''score'']\<rparr>
          example_db)
     = example_db\<lparr>tbl_movies :=
         [(1, [(''name'', PStr ''Inception''), (''date'', PDate 14806), (''score'', PFloat 90),
               (''overview'', PStr ''A thief''), (''status'', PEnum RELEASED),
               (''budget'', PDecimal 160000000), (''revenue'', PFloat 836800000),
               (''country_id'', PInt 1)]),
          hd (tl (tbl_movies example_db))]\<rparr>"
  by code_simp

text \<open>A body that validates sets the eight fields that have no default.\<close>

lemma validate_fields_set:
  assumes "MovieCreateUpdateSchema_validate today body = Inr film"
  shows "fields_set film = fields_set_of body"
  using assms by (auto simp: MovieCreateUpdateSchema_validate_def split: if_splits)

lemma supplied_Given [simp]: "supplied loc (Given v) = [loc]"
  by (simp add: supplied_def)

lemma validate_required_supplied:
  assumes "MovieCreateUpdateSchema_validate today body = Inr film"
  shows "set [''name'', ''date'', ''score'', ''overview'', ''status'', ''budget'', ''revenue'',
              ''country_id''] \<subseteq> set (fields_set film)"
proof -
  have e: "validation_errors today body = []"
    using assms by (rule validate_Inr)
  obtain n d s ov st bu re ci where
    "in_name body = Given n" "in_date body = Given d" "in_score body = Given s"
    "in_overview body = Given ov" "in_status body = Given st" "in_budget body = Given bu"
    "in_revenue body = Given re" "in_country_id body = Given ci"
    using e unfolding validation_errors_Nil required_ok by blast
  then show ?thesis
    unfolding validate_fields_set [OF assms] fields_set_of_def by simp
qed

text \<open>
  C1. The claim is that an update changes the fields the caller supplies and no others,
  and that a payload holding only a score succeeds and leaves the other fields as they
  were. \<^verbatim>\<open>edit_film\<close> is written for that: it is a PATCH and it applies
  \<^verbatim>\<open>film.dict(exclude_unset=True)\<close>. But the route takes the body as a
  \<^verbatim>\<open>MovieCreateUpdateSchema\<close>, the schema of the create, whose fields are required: the
  payload that holds only a score is refused with a validation error (status 422) for
  the seven fields it leaves out, before the handler runs, and the stored movie keeps its
  score.
\<close>

theorem edit_only_score_rejected:
  "route_edit_film 20000 example_columns 1 only_score example_db
     = (Inl (RequestValidationError
          [(''name'', missing), (''date'', missing), (''overview'', missing),
           (''status'', missing), (''budget'', missing), (''revenue'', missing),
           (''country_id'', missing)]),
        example_db)
   \<and> status_code (RequestValidationError
          [(''name'', missing), (''date'', missing), (''overview'', missing),
           (''status'', missing), (''budget'', missing), (''revenue'', missing),
           (''country_id'', missing)]) = 422
   \<and> map_of (snd (hd (tbl_movies example_db))) ''score'' = Some (PFloat 87)"
  by code_simp

end
